theory Spec2Isabelle
  imports
    Complex_Main
    "HOL-Library.Char_ord"
    "HOL-Library.List_Lexorder"
    "HOL-Library.Multiset"
    "HOL-Library.AList"
begin

section \<open>Go values\<close>

text \<open>
  A Go \<^verbatim>\<open>string\<close> is a sequence of bytes, which is what a HOL \<^typ>\<open>string\<close> is; the order
  \<open><\<close> on strings (from \<open>Char_ord\<close> and \<open>List_Lexorder\<close>) is Go's: byte-wise lexicographic.
  A Go \<^verbatim>\<open>int\<close> is modelled by \<^typ>\<open>int\<close>: the code below does no arithmetic on ids or
  lengths, so 64-bit wrap-around never comes into play.
  A non-nil \<^verbatim>\<open>error\<close> is modelled by its message, a nil one by \<open>None\<close>.
  A \<^verbatim>\<open>time.Time\<close> is an instant, counted in nanoseconds.
\<close>

type_synonym error = string
type_synonym time = int

text \<open>A call either returns or panics; a panic is the value \<open>Panic\<close>.\<close>

datatype 'a outcome = Panic | Return 'a

definition Hour :: int where
  "Hour = 3600000000000"

text \<open>The zero value of \<^verbatim>\<open>time.Time\<close> (1 January of year 1), in nanoseconds before 1970.\<close>

definition zero_Time :: time where
  "zero_Time = - 62135596800000000000"

subsection \<open>fmt's \<^verbatim>\<open>%d\<close>\<close>

function digits :: "nat \<Rightarrow> string" where
  "digits n = (if n < 10 then [char_of (48 + n)]
               else digits (n div 10) @ [char_of (48 + n mod 10)])"
  by pat_completeness auto
termination
  by (relation "measure id") auto

definition fmt_d :: "int \<Rightarrow> string" where
  "fmt_d i = (if i < 0 then CHR ''-'' # digits (nat (- i)) else digits (nat i))"

subsection \<open>unicode/utf8.RuneCountInString and strings.ContainsAny\<close>

text \<open>
  \<open>rune_width\<close> is the number of bytes the first rune of a non-empty string takes, as
  \<^verbatim>\<open>RuneCountInString\<close> steps over it: one byte for ASCII, for an invalid or a cut-off
  lead byte and for a wrong continuation byte, the encoded width otherwise.
\<close>

definition cont_byte :: "string \<Rightarrow> nat \<Rightarrow> nat \<Rightarrow> nat \<Rightarrow> bool" where
  "cont_byte cs i lo hi = (lo \<le> (of_char (cs ! i) :: nat) \<and> (of_char (cs ! i) :: nat) \<le> hi)"

definition rune_width :: "char \<Rightarrow> string \<Rightarrow> nat" where
  "rune_width c cs =
     (let b = (of_char c :: nat) in
      if b < 0x80 then 1
      else if b < 0xC2 \<or> 0xF4 < b then 1
      else
        let size = (if b < 0xE0 then 2 else if b < 0xF0 then 3 else (4::nat));
            lo = (if b = 0xE0 then 0xA0 else if b = 0xF0 then 0x90 else 0x80);
            hi = (if b = 0xED then 0x9F else if b = 0xF4 then 0x8F else 0xBF)
        in
          if length cs + 1 < size then 1
          else if \<not> cont_byte cs 0 lo hi then 1
          else if size = 2 then 2
          else if \<not> cont_byte cs 1 0x80 0xBF then 1
          else if size = 3 then 3
          else if \<not> cont_byte cs 2 0x80 0xBF then 1
          else 4)"

function RuneCountInString :: "string \<Rightarrow> nat" where
  "RuneCountInString [] = 0"
| "RuneCountInString (c # cs) = Suc (RuneCountInString (drop (rune_width c cs - 1) cs))"
  by pat_completeness auto
termination
  by (relation "measure length") (auto simp add: rune_width_def Let_def)

text \<open>For a set of ASCII characters, as in both calls below, the test is on bytes.\<close>

definition ContainsAny :: "string \<Rightarrow> string \<Rightarrow> bool" where
  "ContainsAny s chars = (\<exists>c \<in> set s. c \<in> set chars)"

section \<open>Field validation\<close>

definition validateFieldContent :: "string \<Rightarrow> string \<Rightarrow> int \<Rightarrow> error option" where
  "validateFieldContent fieldValue fieldName maxLength =
     (if int (RuneCountInString fieldValue) > maxLength
      then Some (fieldName @ '' must be shorter than '' @ fmt_d maxLength @ '' characters'')
      else if ContainsAny fieldValue ''<>'' \<and> ContainsAny fieldValue [CHR 0x22, CHR ''/'']
      then Some (fieldName @ '' contains invalid characters'')
      else None)"

section \<open>The data model\<close>

record Vocab =
  ID :: int
  LearningLang :: string
  FirstLang :: string
  Created :: time
  Alternatives :: string
  Skill :: string
  Infinitive :: string
  Pos :: string
  Hint :: string
  NumLearningWords :: int
  KnownLangCode :: string
  LearningLangCode :: string

text \<open>The fields of \<^verbatim>\<open>Fixit\<close> and \<^verbatim>\<open>Audit\<close> carry a prefix, since a field name is a constant.\<close>

record Fixit =
  F_ID :: int
  F_VocabID :: int
  F_Status :: string
  F_FieldName :: string
  F_Comments :: string
  F_CreatedBy :: string
  F_Created :: time

record Audit =
  A_ID :: int
  A_ObjectID :: int
  A_TableName :: string
  A_Diff :: string
  A_Before :: string
  A_After :: string
  A_Comments :: string
  A_CreatedBy :: string
  A_Created :: time

record Duration =
  Start :: time
  End :: time

definition Vocab_Clone :: "Vocab \<Rightarrow> Vocab" where
  "Vocab_Clone v =
     \<lparr>ID = ID v, LearningLang = LearningLang v, FirstLang = FirstLang v, Created = Created v,
      Alternatives = Alternatives v, Skill = Skill v, Infinitive = Infinitive v, Pos = Pos v,
      Hint = Hint v, NumLearningWords = NumLearningWords v,
      KnownLangCode = KnownLangCode v, LearningLangCode = LearningLangCode v\<rparr>"

definition Fixit_Clone :: "Fixit \<Rightarrow> Fixit" where
  "Fixit_Clone f =
     \<lparr>F_ID = F_ID f, F_VocabID = F_VocabID f, F_Status = F_Status f,
      F_FieldName = F_FieldName f, F_Comments = F_Comments f,
      F_CreatedBy = F_CreatedBy f, F_Created = F_Created f\<rparr>"

section \<open>Decoded JSON\<close>

text \<open>
  What \<^verbatim>\<open>encoding/json\<close> decodes into an \<^verbatim>\<open>interface{}\<close>: nil, a bool, a float64, a string,
  a slice or a map. The number is the value of the float64 (a decoded number is finite).
  A \<^verbatim>\<open>map[string]interface{}\<close> is the list of its entries in the order in which
  \<^verbatim>\<open>range\<close> visits them in this run; Go fixes no order, so every permutation of the
  entries stands for the same map. The nil map is the empty list.
\<close>

datatype json =
    JNull
  | JBool bool
  | JNumber rat
  | JString string
  | JArray "json list"
  | JObject "(string \<times> json) list"

record DiffResult =
  Key :: string
  Before :: json
  After :: json

text \<open>
  \<open>iface_neq x y\<close> is Go's \<^verbatim>\<open>x != y\<close> on two \<^verbatim>\<open>interface{}\<close> values: values of different
  dynamic types differ, values of one comparable type are compared, and the comparison
  of two slices or of two maps panics (\<open>None\<close>), their types being uncomparable.
\<close>

fun iface_neq :: "json \<Rightarrow> json \<Rightarrow> bool option" where
  "iface_neq JNull JNull = Some False"
| "iface_neq (JBool x) (JBool y) = Some (x \<noteq> y)"
| "iface_neq (JNumber x) (JNumber y) = Some (x \<noteq> y)"
| "iface_neq (JString x) (JString y) = Some (x \<noteq> y)"
| "iface_neq (JArray x) (JArray y) = None"
| "iface_neq (JObject x) (JObject y) = None"
| "iface_neq x y = Some True"

section \<open>The standard library the code calls\<close>

text \<open>
  The functions of Go's standard library that the code calls and that are not modelled
  above are parameters of the model:
  \<^item> \<open>json_Unmarshal s\<close> decodes \<open>s\<close> into a \<^verbatim>\<open>map[string]interface{}\<close> variable that is nil
    before the call. \<open>None\<close> is a returned error (a syntax error, or a top-level value
    that is no object): the decoder checks the whole input first, so the variable is
    still nil then. The literal \<^verbatim>\<open>null\<close> decodes to the nil map without an error.
  \<^item> \<open>json_Marshal_diffs\<close>, \<open>json_Marshal_Vocab\<close>, \<open>json_Marshal_Fixit\<close> are
    \<^verbatim>\<open>json.Marshal\<close> at these three types, \<open>None\<close> being a returned error.
  \<^item> \<open>sort_Slice lt xs\<close> is \<^verbatim>\<open>sort.Slice\<close> of \<open>xs\<close> with the comparison \<open>lt\<close>.
  \<^item> \<open>time_Parse\<close> is \<^verbatim>\<open>time.Parse(time.RFC3339, _)\<close>.
\<close>

record stdlib =
  json_Unmarshal :: "string \<Rightarrow> (string \<times> json) list option"
  json_Marshal_diffs :: "DiffResult list \<Rightarrow> string option"
  json_Marshal_Vocab :: "Vocab \<Rightarrow> string option"
  json_Marshal_Fixit :: "Fixit \<Rightarrow> string option"
  sort_Slice :: "(DiffResult \<Rightarrow> DiffResult \<Rightarrow> bool) \<Rightarrow> DiffResult list \<Rightarrow> DiffResult list"
  time_Parse :: "string \<Rightarrow> error + time"

definition Vocab_JSON :: "stdlib \<Rightarrow> Vocab \<Rightarrow> string" where
  "Vocab_JSON lib v = (case json_Marshal_Vocab lib v of None \<Rightarrow> [] | Some b \<Rightarrow> b)"

definition Fixit_JSON :: "stdlib \<Rightarrow> Fixit \<Rightarrow> string" where
  "Fixit_JSON lib f = (case json_Marshal_Fixit lib f of None \<Rightarrow> [] | Some b \<Rightarrow> b)"

section \<open>The structural diff\<close>

definition less_Key :: "DiffResult \<Rightarrow> DiffResult \<Rightarrow> bool" where
  "less_Key x y = (Key x < Key y)"

text \<open>The single quote that the format strings of \<^verbatim>\<open>findDiffs\<close> put around a key.\<close>

abbreviation sq :: string where
  "sq \<equiv> [CHR 0x27]"

text \<open>
  \<open>findDiffs_range\<close> is the \<^verbatim>\<open>for key, aValue := range a\<close> loop of \<^verbatim>\<open>findDiffs\<close>, over the
  entries still to visit, with the slice \<open>diffs'\<close> (the source's \<^verbatim>\<open>diffs\<close>) built so far.
\<close>

fun findDiffs :: "stdlib \<Rightarrow> (string \<times> json) list \<Rightarrow> (string \<times> json) list \<Rightarrow> string
      \<Rightarrow> DiffResult list outcome"
  and findDiffs_range :: "stdlib \<Rightarrow> (string \<times> json) list \<Rightarrow> (string \<times> json) list \<Rightarrow> string
      \<Rightarrow> DiffResult list \<Rightarrow> DiffResult list outcome"
where
  "findDiffs lib a b path =
     (case findDiffs_range lib a b path [] of
        Panic \<Rightarrow> Panic
      | Return diffs' \<Rightarrow> Return (sort_Slice lib less_Key diffs'))"
| "findDiffs_range lib [] b path diffs' = Return diffs'"
| "findDiffs_range lib ((key, aValue) # rest) b path diffs' =
     (let fullKey = path @ key in
      case map_of b key of
        None \<Rightarrow>
          (let description = sq @ fullKey @ sq @ '' removed'' in
           if path = []
           then findDiffs_range lib rest b path
                  (diffs' @ [\<lparr>Key = description, Before = JNull, After = JNull\<rparr>])
           else findDiffs_range lib rest b path
                  (diffs' @ [\<lparr>Key = sq @ fullKey @ sq @ '' added'',
                             Before = JNull, After = JNull\<rparr>]))
      | Some bValue \<Rightarrow>
          (case aValue of
             JObject aValueTyped \<Rightarrow>
               (case bValue of
                  JObject bValueTyped \<Rightarrow>
                    (case findDiffs lib aValueTyped bValueTyped (fullKey @ ''.'') of
                       Panic \<Rightarrow> Panic
                     | Return subDiffs \<Rightarrow> findDiffs_range lib rest b path (diffs' @ subDiffs))
                | _ \<Rightarrow> findDiffs_range lib rest b path diffs')
           | _ \<Rightarrow>
               (case iface_neq aValue bValue of
                  None \<Rightarrow> Panic
                | Some True \<Rightarrow>
                    findDiffs_range lib rest b path
                      (diffs' @ [\<lparr>Key = sq @ fullKey @ sq, Before = aValue, After = bValue\<rparr>])
                | Some False \<Rightarrow> findDiffs_range lib rest b path diffs')))"

definition CompareJSON :: "stdlib \<Rightarrow> string \<Rightarrow> string \<Rightarrow> string outcome" where
  "CompareJSON lib jsonStr1 jsonStr2 =
     (let obj1 = (case json_Unmarshal lib jsonStr1 of None \<Rightarrow> [] | Some m \<Rightarrow> m);
          obj2 = (case json_Unmarshal lib jsonStr2 of None \<Rightarrow> [] | Some m \<Rightarrow> m)
      in case findDiffs lib obj1 obj2 [] of
           Panic \<Rightarrow> Panic
         | Return diffs' \<Rightarrow>
             Return (case json_Marshal_diffs lib diffs' of None \<Rightarrow> [] | Some diffJSON \<Rightarrow> diffJSON))"

text \<open>
  What the code relies on \<^verbatim>\<open>sort.Slice\<close> for: with the comparison of \<^verbatim>\<open>findDiffs\<close> it
  returns the elements it was given, in ascending order of their keys. Nothing is said
  about elements with equal keys: the sort is not guaranteed to be stable.
\<close>

definition sort_Slice_sorts :: "stdlib \<Rightarrow> bool" where
  "sort_Slice_sorts lib =
     (\<forall>xs. mset (sort_Slice lib less_Key xs) = mset xs
           \<and> sorted (map Key (sort_Slice lib less_Key xs)))"

text \<open>
  \<open>reordered x y\<close>: \<open>y\<close> is the value \<open>x\<close> with the entries of the map \<open>x\<close>, and of the maps
  nested in it under its keys, visited in another order. These are the maps over which
  \<^verbatim>\<open>findDiffs\<close> ranges when \<open>x\<close> is its first argument. The keys of a Go map are distinct.
\<close>

fun reordered :: "json \<Rightarrow> json \<Rightarrow> bool" where
  "reordered (JObject xs) (JObject ys) =
     (length xs = length ys \<and> distinct (map fst xs) \<and> distinct (map fst ys)
      \<and> list_all (\<lambda>e. case map_of ys (fst e) of
                          None \<Rightarrow> False
                        | Some v' \<Rightarrow> reordered (snd e) v') xs)"
| "reordered x y = (x = y)"

section \<open>Validation of Vocab and Fixit\<close>

definition maxLearningLangLen :: int where "maxLearningLangLen = 40"
definition maxFirstLangLen :: int where "maxFirstLangLen = 40"
definition maxAlternativesLen :: int where "maxAlternativesLen = 255"
definition maxSkillLen :: int where "maxSkillLen = 100"
definition maxInfinitiveLen :: int where "maxInfinitiveLen = 40"
definition maxPosLen :: int where "maxPosLen = 40"
definition maxHintLen :: int where "maxHintLen = 255"
definition maxFixitFieldNameLen :: int where "maxFixitFieldNameLen = 40"
definition maxFixitCommitLen :: int where "maxFixitCommitLen = 2000"

text \<open>The regular expression \<^verbatim>\<open>^[a-z]{2}$\<close>: exactly two bytes, both lowercase letters.\<close>

definition langCodePattern_MatchString :: "string \<Rightarrow> bool" where
  "langCodePattern_MatchString s =
     (length s = 2 \<and> list_all (\<lambda>c. CHR ''a'' \<le> c \<and> c \<le> CHR ''z'') s)"

definition validateVocabUpdate :: "Vocab \<Rightarrow> error option" where
  "validateVocabUpdate vocab =
     (case validateFieldContent (FirstLang vocab) ''First language'' maxFirstLangLen of
        Some err \<Rightarrow> Some err
      | None \<Rightarrow>
     (case validateFieldContent (Alternatives vocab) ''Alternatives'' maxAlternativesLen of
        Some err \<Rightarrow> Some err
      | None \<Rightarrow>
     (case validateFieldContent (Skill vocab) ''Skill'' maxSkillLen of
        Some err \<Rightarrow> Some err
      | None \<Rightarrow>
     (case validateFieldContent (Infinitive vocab) ''Infinitive'' maxInfinitiveLen of
        Some err \<Rightarrow> Some err
      | None \<Rightarrow>
     (case validateFieldContent (Pos vocab) ''Part of speech'' maxPosLen of
        Some err \<Rightarrow> Some err
      | None \<Rightarrow>
     (case validateFieldContent (Hint vocab) ''Hint'' maxHintLen of
        Some err \<Rightarrow> Some err
      | None \<Rightarrow> None))))))"

definition validateVocab :: "Vocab \<Rightarrow> error option" where
  "validateVocab vocab =
     (case validateFieldContent (LearningLang vocab) ''Learning language'' maxLearningLangLen of
        Some err \<Rightarrow> Some err
      | None \<Rightarrow>
          if length (LearningLang vocab) = 0 then Some ''learning lang field is required''
          else
            (case validateVocabUpdate vocab of
               Some err \<Rightarrow> Some err
             | None \<Rightarrow>
                 if \<not> langCodePattern_MatchString (KnownLangCode vocab)
                    \<or> \<not> langCodePattern_MatchString (LearningLangCode vocab)
                 then Some (''Language codes'' @ '' must consist of two lowercase letters'')
                 else None))"

definition validateFixit :: "Fixit \<Rightarrow> error option" where
  "validateFixit fixit =
     (case validateFieldContent (F_FieldName fixit) ''Field Name'' maxFixitFieldNameLen of
        Some err \<Rightarrow> Some err
      | None \<Rightarrow>
     (case validateFieldContent (F_Comments fixit) ''Commits'' maxFixitCommitLen of
        Some err \<Rightarrow> Some err
      | None \<Rightarrow> None))"

section \<open>The repositories\<close>

text \<open>
  The services reach storage through the interfaces \<^verbatim>\<open>VocabRepository\<close>, \<^verbatim>\<open>FixitRepository\<close>
  and \<^verbatim>\<open>AuditRepository\<close>. A method is a function from the state \<open>'w\<close> of the storage
  before the call to what the call returns and the state after it. A method that takes
  a pointer to a record may write to the record (the SQL repository and the Fixit mock
  fill in the id on create), so \<open>Create\<close> and \<open>Update\<close> return the record as it is
  after the call. A find returns a pointer, \<open>None\<close> being nil, and an error.
  Only the methods that the modelled service operations call are listed.
\<close>

record 'w VocabRepository =
  FindVocabByID_r :: "int \<Rightarrow> 'w \<Rightarrow> (Vocab option \<times> error option) \<times> 'w"
  FindVocabByLearningLang_r :: "string \<Rightarrow> 'w \<Rightarrow> (Vocab option \<times> error option) \<times> 'w"
  CreateVocab_r :: "Vocab \<Rightarrow> 'w \<Rightarrow> (Vocab \<times> error option) \<times> 'w"
  UpdateVocab_r :: "Vocab \<Rightarrow> 'w \<Rightarrow> (Vocab \<times> error option) \<times> 'w"

record 'w FixitRepository =
  FindFixitByID_r :: "int \<Rightarrow> 'w \<Rightarrow> (Fixit option \<times> error option) \<times> 'w"
  CreateFixit_r :: "Fixit \<Rightarrow> 'w \<Rightarrow> (Fixit \<times> error option) \<times> 'w"
  UpdateFixit_r :: "Fixit \<Rightarrow> 'w \<Rightarrow> (Fixit \<times> error option) \<times> 'w"

text \<open>\<^verbatim>\<open>CreateAudit\<close> of the service drops its audit record after the call.\<close>

record 'w AuditRepository =
  CreateAudit_r :: "Audit \<Rightarrow> 'w \<Rightarrow> error option \<times> 'w"

record 'w AuditService =
  audit_repo :: "'w AuditRepository"

record 'w VocabService =
  vocab_repo :: "'w VocabRepository"
  vocab_auditService :: "'w AuditService"

record 'w FixitService =
  fixit_repo :: "'w FixitRepository"
  fixit_auditService :: "'w AuditService"

section \<open>The audit record builder\<close>

text \<open>
  A pointer to a record is an option, \<open>None\<close> being nil: \<open>before'\<close> and \<open>after'\<close> are the
  pointers \<^verbatim>\<open>before\<close> and \<^verbatim>\<open>after\<close> of the source, \<open>beforeV\<close> and \<open>afterV\<close> the records they
  point to. A call of \<^verbatim>\<open>CompareJSON\<close> that panics ends the builder with this panic.
\<close>

definition CreateAudit ::
  "stdlib \<Rightarrow> 'w AuditService \<Rightarrow> string \<Rightarrow> int \<Rightarrow> string \<Rightarrow> string \<Rightarrow> string \<Rightarrow> string \<Rightarrow> 'w
     \<Rightarrow> error option outcome \<times> 'w" where
  "CreateAudit lib s tableName objectId comments createdBy beforeJson afterJson w =
     (case validateFieldContent comments ''comments'' 1000 of
        Some err \<Rightarrow> (Return (Some err), w)
      | None \<Rightarrow>
          (case (if length beforeJson > 0 then CompareJSON lib beforeJson afterJson
                 else Return []) of
             Panic \<Rightarrow> (Panic, w)
           | Return diff \<Rightarrow>
               (let audit = \<lparr>A_ID = 0, A_ObjectID = objectId, A_TableName = tableName,
                             A_Diff = diff, A_Before = beforeJson, A_After = afterJson,
                             A_Comments = comments, A_CreatedBy = createdBy,
                             A_Created = zero_Time\<rparr>
                in case CreateAudit_r (audit_repo s) audit w of
                     (err, w') \<Rightarrow> (Return err, w'))))"

definition CreateVocabAudit ::
  "stdlib \<Rightarrow> 'w AuditService \<Rightarrow> string \<Rightarrow> string \<Rightarrow> Vocab option \<Rightarrow> Vocab option \<Rightarrow> 'w
     \<Rightarrow> error option outcome \<times> 'w" where
  "CreateVocabAudit lib s comments createdBy before' after' w =
     (case after' of
        None \<Rightarrow> (Return (Some ''after value for vocab is required''), w)
      | Some afterV \<Rightarrow>
          (case (case before' of
                   None \<Rightarrow> None
                 | Some beforeV \<Rightarrow>
                     if ID beforeV \<noteq> ID afterV
                     then Some (''audit before id '' @ fmt_d (ID beforeV)
                                @ '' and after id '' @ fmt_d (ID afterV) @ '' mismatch'')
                     else None) of
             Some err \<Rightarrow> (Return (Some err), w)
           | None \<Rightarrow>
               (let afterJson = Vocab_JSON lib afterV;
                    beforeJson = (case before' of None \<Rightarrow> [] | Some beforeV \<Rightarrow> Vocab_JSON lib beforeV)
                in CreateAudit lib s ''vocab'' (ID afterV) comments createdBy
                     beforeJson afterJson w)))"

definition CreateFixitAudit ::
  "stdlib \<Rightarrow> 'w AuditService \<Rightarrow> string \<Rightarrow> string \<Rightarrow> Fixit option \<Rightarrow> Fixit option \<Rightarrow> 'w
     \<Rightarrow> error option outcome \<times> 'w" where
  "CreateFixitAudit lib s comments createdBy before' after' w =
     (case after' of
        None \<Rightarrow> (Return (Some ''after value for fixit is required''), w)
      | Some afterV \<Rightarrow>
          (case (case before' of
                   None \<Rightarrow> None
                 | Some beforeV \<Rightarrow>
                     if F_ID beforeV \<noteq> F_ID afterV
                     then Some (''fixit before id '' @ fmt_d (F_ID beforeV)
                                @ '' and after id '' @ fmt_d (F_ID afterV) @ '' mismatch'')
                     else None) of
             Some err \<Rightarrow> (Return (Some err), w)
           | None \<Rightarrow>
               (let afterJson = Fixit_JSON lib afterV;
                    beforeJson = (case before' of None \<Rightarrow> [] | Some beforeV \<Rightarrow> Fixit_JSON lib beforeV)
                in CreateAudit lib s ''fixit'' (F_ID afterV) comments createdBy
                     beforeJson afterJson w)))"

section \<open>The Vocab and Fixit services\<close>

text \<open>
  A service operation returns what the Go method returns, or panics, and the state of
  the storage after it. \<^verbatim>\<open>CreateVocab\<close> and \<^verbatim>\<open>CreateFixit\<close> return an error only; the
  record they were given a pointer to, as the repository left it, is returned beside it.
\<close>

definition CreateVocab ::
  "stdlib \<Rightarrow> 'w VocabService \<Rightarrow> Vocab \<Rightarrow> 'w \<Rightarrow> (Vocab \<times> error option) outcome \<times> 'w" where
  "CreateVocab lib s vocab w =
     (case validateVocab vocab of
        Some err \<Rightarrow> (Return (vocab, Some err), w)
      | None \<Rightarrow>
          (case FindVocabByLearningLang_r (vocab_repo s) (LearningLang vocab) w of
             ((Some existing, None), w1) \<Rightarrow>
               (Return (vocab, Some (''vocab with learning lang '' @ LearningLang vocab
                                     @ '' and id '' @ fmt_d (ID existing) @ '' already exists'')),
                w1)
           | ((existing, err), w1) \<Rightarrow>
               (case CreateVocab_r (vocab_repo s) vocab w1 of
                  ((vocab', err), w2) \<Rightarrow>
                    (case CreateVocabAudit lib (vocab_auditService s) ''created vocab'' ''sys''
                            None (Some vocab') w2 of
                       (Panic, w3) \<Rightarrow> (Panic, w3)
                     | (Return err, w3) \<Rightarrow> (Return (vocab', err), w3)))))"

definition UpdateVocab ::
  "stdlib \<Rightarrow> 'w VocabService \<Rightarrow> Vocab \<Rightarrow> 'w
     \<Rightarrow> (Vocab option \<times> error option) outcome \<times> 'w" where
  "UpdateVocab lib s updating w =
     (case validateVocabUpdate updating of
        Some err \<Rightarrow> (Return (None, Some err), w)
      | None \<Rightarrow>
          (case FindVocabByID_r (vocab_repo s) (ID updating) w of
             ((before', Some err), w1) \<Rightarrow> (Return (None, Some err), w1)
           | ((None, None), w1) \<Rightarrow>
               (Return (None, Some (''expected to find existing vocab with id ''
                                    @ fmt_d (ID updating))), w1)
           | ((Some before', None), w1) \<Rightarrow>
               (let vocab = Vocab_Clone before' in
                if Hint vocab \<noteq> Hint updating
                   \<or> Pos vocab \<noteq> Pos updating
                   \<or> Skill vocab \<noteq> Skill updating
                   \<or> FirstLang vocab \<noteq> FirstLang updating
                   \<or> Infinitive vocab \<noteq> Infinitive updating
                   \<or> Alternatives vocab \<noteq> Alternatives updating
                   \<or> NumLearningWords vocab \<noteq> NumLearningWords updating
                then
                  (let vocab = vocab\<lparr>Hint := Hint updating,
                                     Pos := Pos updating,
                                     Skill := Skill updating,
                                     FirstLang := FirstLang updating,
                                     Infinitive := Infinitive updating,
                                     Alternatives := Alternatives updating,
                                     NumLearningWords := NumLearningWords updating\<rparr>
                   in case UpdateVocab_r (vocab_repo s) vocab w1 of
                        ((vocab, Some err), w2) \<Rightarrow> (Return (Some vocab, Some err), w2)
                      | ((vocab, None), w2) \<Rightarrow>
                          (case CreateVocabAudit lib (vocab_auditService s) ''updated vocab''
                                  ''sys'' (Some before') (Some vocab) w2 of
                             (Panic, w3) \<Rightarrow> (Panic, w3)
                           | (Return err, w3) \<Rightarrow> (Return (Some vocab, err), w3)))
                else
                  (Return (None, Some (''update for vocab '' @ fmt_d (ID vocab)
                                       @ '' has no changes'')), w1))))"

definition CreateFixit ::
  "stdlib \<Rightarrow> 'w FixitService \<Rightarrow> Fixit \<Rightarrow> 'w \<Rightarrow> (Fixit \<times> error option) outcome \<times> 'w" where
  "CreateFixit lib s fixit w =
     (case validateFixit fixit of
        Some err \<Rightarrow> (Return (fixit, Some err), w)
      | None \<Rightarrow>
          (case CreateFixit_r (fixit_repo s) fixit w of
             ((fixit', err), w1) \<Rightarrow>
               (case CreateFixitAudit lib (fixit_auditService s) ''created fixit'' ''sys''
                       None (Some fixit') w1 of
                  (Panic, w2) \<Rightarrow> (Panic, w2)
                | (Return err, w2) \<Rightarrow> (Return (fixit', err), w2))))"

definition UpdateFixit ::
  "stdlib \<Rightarrow> 'w FixitService \<Rightarrow> Fixit \<Rightarrow> 'w
     \<Rightarrow> (Fixit option \<times> error option) outcome \<times> 'w" where
  "UpdateFixit lib s updating w =
     (case validateFixit updating of
        Some err \<Rightarrow> (Return (None, Some err), w)
      | None \<Rightarrow>
          (case FindFixitByID_r (fixit_repo s) (F_ID updating) w of
             ((before', Some err), w1) \<Rightarrow> (Return (None, Some err), w1)
           | ((None, None), w1) \<Rightarrow>
               (Return (None, Some (''expected to find existing fixit with id ''
                                    @ fmt_d (F_ID updating))), w1)
           | ((Some before', None), w1) \<Rightarrow>
               (let fixit = Fixit_Clone before' in
                if F_Status fixit \<noteq> F_Status updating
                   \<or> F_FieldName fixit \<noteq> F_FieldName updating
                   \<or> F_Comments fixit \<noteq> F_Comments updating
                then
                  (let fixit = fixit\<lparr>F_Status := F_Status updating,
                                     F_FieldName := F_FieldName updating,
                                     F_Comments := F_Comments updating\<rparr>
                   in case UpdateFixit_r (fixit_repo s) fixit w1 of
                        ((fixit, Some err), w2) \<Rightarrow> (Return (Some fixit, Some err), w2)
                      | ((fixit, None), w2) \<Rightarrow>
                          (case CreateFixitAudit lib (fixit_auditService s) ''updated fixit''
                                  ''sys'' (Some before') (Some fixit) w2 of
                             (Panic, w3) \<Rightarrow> (Panic, w3)
                           | (Return err, w3) \<Rightarrow> (Return (Some fixit, err), w3)))
                else
                  (Return (None, Some (''update for fixit '' @ fmt_d (F_ID fixit)
                                       @ '' has no changes'')), w1))))"

section \<open>The time-range filter\<close>

definition gqlDateTimeToTime :: "stdlib \<Rightarrow> string \<Rightarrow> error + time" where
  "gqlDateTimeToTime lib gqlDateTime = time_Parse lib gqlDateTime"

text \<open>
  \<open>now1\<close> and \<open>now2\<close> are what the two calls of \<^verbatim>\<open>time.Now()\<close> return, in this order.
  \<open>Inl\<close> is the returned error, \<open>Inr\<close> the returned duration.
\<close>

definition GqlDateTimeToDuration ::
  "stdlib \<Rightarrow> time \<Rightarrow> time \<Rightarrow> string \<Rightarrow> string \<Rightarrow> error + Duration" where
  "GqlDateTimeToDuration lib now1 now2 startTime endTime =
     (let start = now1 + (- 1) * Hour;
          end' = now2
      in case (if startTime \<noteq> [] then gqlDateTimeToTime lib startTime else Inr start) of
           Inl err \<Rightarrow> Inl (''invalid start time: '' @ err)
         | Inr start \<Rightarrow>
             (case (if endTime \<noteq> [] then gqlDateTimeToTime lib endTime else Inr end') of
                Inl err \<Rightarrow> Inl (''invalid end time: '' @ err)
              | Inr end' \<Rightarrow>
                  if start > end' then Inl ''start time must be before end time''
                  else Inr \<lparr>Start = start, End = end'\<rparr>))"

section \<open>The mock repositories\<close>

text \<open>
  The repositories of the test suite, \<^verbatim>\<open>MockVocabRepository\<close>, \<^verbatim>\<open>MockFixitRepository\<close> and
  \<^verbatim>\<open>MockAuditRepository\<close>: a Go map from id to record each (an association list here), the
  last two with the counter \<^verbatim>\<open>seq\<close> that numbers new records.
\<close>

record MockWorld =
  vocabs :: "(int \<times> Vocab) list"
  fixits :: "(int \<times> Fixit) list"
  fixit_seq :: int
  audits :: "(int \<times> Audit) list"
  audit_seq :: int

definition Mock_FindVocabByID :: "int \<Rightarrow> MockWorld \<Rightarrow> (Vocab option \<times> error option) \<times> MockWorld" where
  "Mock_FindVocabByID id' m =
     (case map_of (vocabs m) id' of
        Some vocab \<Rightarrow> ((Some vocab, None), m)
      | None \<Rightarrow> ((None, Some (''error finding vocab with id '' @ fmt_d id')), m))"

definition Mock_FindVocabByLearningLang ::
  "string \<Rightarrow> MockWorld \<Rightarrow> (Vocab option \<times> error option) \<times> MockWorld" where
  "Mock_FindVocabByLearningLang learningLang m =
     (case find (\<lambda>v. LearningLang v = learningLang) (map snd (vocabs m)) of
        Some v \<Rightarrow> ((Some v, None), m)
      | None \<Rightarrow> ((None, Some (''error finding vocab with learning lang '' @ learningLang)), m))"

definition Mock_CreateVocab :: "Vocab \<Rightarrow> MockWorld \<Rightarrow> (Vocab \<times> error option) \<times> MockWorld" where
  "Mock_CreateVocab vocab m =
     (case map_of (vocabs m) (ID vocab) of
        Some _ \<Rightarrow> ((vocab, Some ''vocab already exists''), m)
      | None \<Rightarrow> ((vocab, None), m\<lparr>vocabs := AList.update (ID vocab) vocab (vocabs m)\<rparr>))"

definition Mock_UpdateVocab :: "Vocab \<Rightarrow> MockWorld \<Rightarrow> (Vocab \<times> error option) \<times> MockWorld" where
  "Mock_UpdateVocab vocab m =
     (case map_of (vocabs m) (ID vocab) of
        None \<Rightarrow> ((vocab, Some (''error finding vocab with id '' @ fmt_d (ID vocab))), m)
      | Some _ \<Rightarrow> ((vocab, None), m\<lparr>vocabs := AList.update (ID vocab) vocab (vocabs m)\<rparr>))"

definition MockVocabRepository :: "MockWorld VocabRepository" where
  "MockVocabRepository =
     \<lparr>FindVocabByID_r = Mock_FindVocabByID,
      FindVocabByLearningLang_r = Mock_FindVocabByLearningLang,
      CreateVocab_r = Mock_CreateVocab,
      UpdateVocab_r = Mock_UpdateVocab\<rparr>"

definition Mock_FindFixitByID :: "int \<Rightarrow> MockWorld \<Rightarrow> (Fixit option \<times> error option) \<times> MockWorld" where
  "Mock_FindFixitByID id' m =
     (case map_of (fixits m) id' of
        Some fixit \<Rightarrow> ((Some fixit, None), m)
      | None \<Rightarrow> ((None, Some ''fixit not found''), m))"

definition Mock_CreateFixit :: "Fixit \<Rightarrow> MockWorld \<Rightarrow> (Fixit \<times> error option) \<times> MockWorld" where
  "Mock_CreateFixit fixit m =
     (let seq = fixit_seq m + 1;
          fixit = fixit\<lparr>F_ID := seq\<rparr>
      in ((fixit, None),
          m\<lparr>fixit_seq := seq, fixits := AList.update (F_ID fixit) fixit (fixits m)\<rparr>))"

definition Mock_UpdateFixit :: "Fixit \<Rightarrow> MockWorld \<Rightarrow> (Fixit \<times> error option) \<times> MockWorld" where
  "Mock_UpdateFixit fixit m =
     (case map_of (fixits m) (F_ID fixit) of
        None \<Rightarrow> ((fixit, Some ''fixit does not exist''), m)
      | Some _ \<Rightarrow> ((fixit, None), m\<lparr>fixits := AList.update (F_ID fixit) fixit (fixits m)\<rparr>))"

definition MockFixitRepository :: "MockWorld FixitRepository" where
  "MockFixitRepository =
     \<lparr>FindFixitByID_r = Mock_FindFixitByID,
      CreateFixit_r = Mock_CreateFixit,
      UpdateFixit_r = Mock_UpdateFixit\<rparr>"

definition Mock_CreateAudit :: "Audit \<Rightarrow> MockWorld \<Rightarrow> error option \<times> MockWorld" where
  "Mock_CreateAudit audit m =
     (let seq = audit_seq m + 1;
          audit = audit\<lparr>A_ID := seq\<rparr>
      in (None, m\<lparr>audit_seq := seq, audits := AList.update (A_ID audit) audit (audits m)\<rparr>))"

definition MockAuditRepository :: "MockWorld AuditRepository" where
  "MockAuditRepository = \<lparr>CreateAudit_r = Mock_CreateAudit\<rparr>"

definition mockAuditService :: "MockWorld AuditService" where
  "mockAuditService = \<lparr>audit_repo = MockAuditRepository\<rparr>"

definition mockVocabService :: "MockWorld VocabService" where
  "mockVocabService = \<lparr>vocab_repo = MockVocabRepository, vocab_auditService = mockAuditService\<rparr>"

definition mockFixitService :: "MockWorld FixitService" where
  "mockFixitService = \<lparr>fixit_repo = MockFixitRepository, fixit_auditService = mockAuditService\<rparr>"

definition emptyWorld :: MockWorld where
  "emptyWorld = \<lparr>vocabs = [], fixits = [], fixit_seq = 0, audits = [], audit_seq = 0\<rparr>"

section \<open>A library instance for running the model\<close>

text \<open>
  \<^verbatim>\<open>sort.Slice\<close> sorts a slice of at most twelve elements by insertion: each element in
  turn moves left while it is less than its left neighbour. \<open>bubble_left lt x ys\<close>
  inserts \<open>x\<close> at the right end of the sorted part, which \<open>ys\<close> lists from right to left.
\<close>

fun bubble_left :: "('a \<Rightarrow> 'a \<Rightarrow> bool) \<Rightarrow> 'a \<Rightarrow> 'a list \<Rightarrow> 'a list" where
  "bubble_left lt x [] = [x]"
| "bubble_left lt x (y # ys) = (if lt x y then y # bubble_left lt x ys else x # y # ys)"

definition insertionSort :: "('a \<Rightarrow> 'a \<Rightarrow> bool) \<Rightarrow> 'a list \<Rightarrow> 'a list" where
  "insertionSort lt xs = rev (foldl (\<lambda>sorted_part x. bubble_left lt x sorted_part) [] xs)"

text \<open>
  \<^verbatim>\<open>json.Marshal\<close> of a decoded scalar and of a slice of \<^verbatim>\<open>DiffResult\<close>, for the values of
  the examples: null, booleans, whole numbers and strings of plain ASCII letters (no
  escapes). Any other value is outside the examples and is reported as an error.
\<close>

fun marshal_scalar :: "json \<Rightarrow> string option" where
  "marshal_scalar JNull = Some ''null''"
| "marshal_scalar (JBool b) = Some (if b then ''true'' else ''false'')"
| "marshal_scalar (JNumber r) =
     (if r = of_int \<lfloor>r\<rfloor> then Some (fmt_d \<lfloor>r\<rfloor>) else None)"
| "marshal_scalar (JString s) = Some ([CHR 0x22] @ s @ [CHR 0x22])"
| "marshal_scalar _ = None"

definition marshal_DiffResult :: "DiffResult \<Rightarrow> string option" where
  \<open>marshal_DiffResult d =
     (case (marshal_scalar (Before d), marshal_scalar (After d)) of
        (Some x, Some y) \<Rightarrow>
          Some (''{"key":"'' @ Key d @ ''","before":'' @ x @ '',"after":'' @ y @ ''}'')
      | _ \<Rightarrow> None)\<close>

fun join_comma :: "string list \<Rightarrow> string" where
  "join_comma [] = []"
| "join_comma [x] = x"
| "join_comma (x # y # zs) = x @ '','' @ join_comma (y # zs)"

text \<open>The nil slice, which is what \<^verbatim>\<open>findDiffs\<close> returns when it found nothing, is \<^verbatim>\<open>null\<close>.\<close>

definition marshal_diffs :: "DiffResult list \<Rightarrow> string option" where
  "marshal_diffs ds =
     (if ds = [] then Some ''null''
      else if list_all (\<lambda>d. marshal_DiffResult d \<noteq> None) ds
      then Some (''['' @ join_comma (map (\<lambda>d. case marshal_DiffResult d of Some x \<Rightarrow> x | None \<Rightarrow> []) ds) @ '']'')
      else None)"

text \<open>
  The decoder of the instance knows the documents of the examples and decodes them as
  \<^verbatim>\<open>encoding/json\<close> does; every other input is an error, as the malformed inputs of the
  examples are.
\<close>

definition ex_documents :: "(string \<times> (string \<times> json) list) list" where
  \<open>ex_documents =
     [(''{}'', []),
      (''null'', []),
      (''{"a":1}'', [(''a'', JNumber 1)]),
      (''{"d":{"x":1}}'', [(''d'', JObject [(''x'', JNumber 1)])]),
      (''{"d":{}}'', [(''d'', JObject [])])]\<close>

definition ex_times :: "(string \<times> time) list" where
  "ex_times =
     [(''1970-01-01T00:00:00Z'', 0),
      (''1970-01-01T00:00:01Z'', 1000000000),
      (''1970-01-01T01:00:00Z'', 3600000000000)]"

text \<open>The marshalling of the two records does not matter to the examples and is kept short.\<close>

definition ex_lib :: stdlib where
  \<open>ex_lib =
     \<lparr>json_Unmarshal = map_of ex_documents,
      json_Marshal_diffs = marshal_diffs,
      json_Marshal_Vocab = (\<lambda>v. Some (''{"id":'' @ fmt_d (ID v) @ ''}'')),
      json_Marshal_Fixit = (\<lambda>f. Some (''{"id":'' @ fmt_d (F_ID f) @ ''}'')),
      sort_Slice = insertionSort,
      time_Parse = (\<lambda>s. case map_of ex_times s of Some t \<Rightarrow> Inr t | None \<Rightarrow> Inl ''cannot parse'')\<rparr>\<close>

text \<open>Records for the examples, after those of the test suite.\<close>

definition ex_vocab :: Vocab where
  "ex_vocab =
     \<lparr>ID = 1, LearningLang = ''hola'', FirstLang = ''hello'', Created = 0,
      Alternatives = [], Skill = [], Infinitive = [], Pos = [], Hint = [],
      NumLearningWords = 1, KnownLangCode = ''en'', LearningLangCode = ''es''\<rparr>"

definition ex_fixit :: Fixit where
  "ex_fixit =
     \<lparr>F_ID = 1, F_VocabID = 100, F_Status = ''pending'', F_FieldName = ''Definition'',
      F_Comments = ''Initial comment'', F_CreatedBy = ''tester'', F_Created = 0\<rparr>"

text \<open>The mock storage that holds \<open>ex_vocab\<close> under its id, and nothing else.\<close>

definition ex_world :: MockWorld where
  "ex_world = emptyWorld\<lparr>vocabs := [(1, ex_vocab)]\<rparr>"

text \<open>
  A Fixit repository whose create fails, as the SQL repository's does when the database
  refuses the row (the column \<^verbatim>\<open>status\<close> is an enum, which \<^verbatim>\<open>validateFixit\<close> does not check).
\<close>

definition rejectingFixitService :: "MockWorld FixitService" where
  "rejectingFixitService =
     \<lparr>fixit_repo = MockFixitRepository
        \<lparr>CreateFixit_r := (\<lambda>fixit m. ((fixit, Some ''invalid input value for enum status_type''), m))\<rparr>,
      fixit_auditService = mockAuditService\<rparr>"

text \<open>
  An update of \<open>ex_vocab\<close> that changes the hint and also carries another learning
  language and another known-language code.
\<close>

definition ex_update :: Vocab where
  "ex_update = ex_vocab\<lparr>Hint := ''h'', LearningLang := ''changed'', KnownLangCode := ''fr''\<rparr>"

text \<open>The test scenario of the diff: two fields of a vocab are emptied.\<close>

definition ex_before :: "(string \<times> json) list" where
  "ex_before = [(''infinitive'', JString ''ser''), (''hint'', JString ''A hint'')]"

definition ex_after :: "(string \<times> json) list" where
  "ex_after = [(''hint'', JString []), (''infinitive'', JString [])]"

section \<open>Notions for the proofs about the diff\<close>

text \<open>
  \<open>entry_diffs lib b path e\<close> is what one pass of the loop of \<^verbatim>\<open>findDiffs\<close> appends for the
  entry \<open>e\<close> of the first map, or the panic of that pass.
\<close>

definition entry_diffs :: "stdlib \<Rightarrow> (string \<times> json) list \<Rightarrow> string \<Rightarrow> string \<times> json
    \<Rightarrow> DiffResult list outcome" where
  "entry_diffs lib b path e =
     (case map_of b (fst e) of
        None \<Rightarrow>
          Return [if path = []
                  then \<lparr>Key = sq @ path @ fst e @ sq @ '' removed'', Before = JNull, After = JNull\<rparr>
                  else \<lparr>Key = sq @ path @ fst e @ sq @ '' added'', Before = JNull, After = JNull\<rparr>]
      | Some bValue \<Rightarrow>
          (case snd e of
             JObject aValueTyped \<Rightarrow>
               (case bValue of
                  JObject bValueTyped \<Rightarrow>
                    findDiffs lib aValueTyped bValueTyped (path @ fst e @ ''.'')
                | _ \<Rightarrow> Return [])
           | _ \<Rightarrow>
               (case iface_neq (snd e) bValue of
                  None \<Rightarrow> Panic
                | Some True \<Rightarrow>
                    Return [\<lparr>Key = sq @ path @ fst e @ sq, Before = snd e, After = bValue\<rparr>]
                | Some False \<Rightarrow> Return [])))"

definition returned :: "DiffResult list outcome \<Rightarrow> DiffResult list" where
  "returned r = (case r of Panic \<Rightarrow> [] | Return ds \<Rightarrow> ds)"

text \<open>Two outcomes with the same entries: both panic, or both return, the same multiset.\<close>

definition same_entries :: "DiffResult list outcome \<Rightarrow> DiffResult list outcome \<Rightarrow> bool" where
  "same_entries r r' =
     (case r of
        Panic \<Rightarrow> r' = Panic
      | Return ds \<Rightarrow> (case r' of Panic \<Rightarrow> False | Return ds' \<Rightarrow> mset ds = mset ds'))"

section \<open>Evaluation lemmas\<close>

lemma fmt_d_small [simp]:
  "fmt_d 0 = ''0''" "fmt_d 1 = ''1''" "fmt_d 2 = ''2''"
  by code_simp+

text \<open>
  Why a diff has an outcome: \<^verbatim>\<open>aValue != bValue\<close> compares two interface values, and Go
  panics when both hold a slice, as two decoded JSON arrays do.
\<close>

lemma findDiffs_panics_on_two_arrays:
  "findDiffs ex_lib [(''m'', JArray [JNumber 1])] [(''m'', JArray [JNumber 1])] [] = Panic"
  by code_simp

section \<open>The audit record builder: nil and mismatched snapshots\<close>

text \<open>
  Claim C7. Whatever the comments, the author and the \<open>before\<close> snapshot are, building a
  Vocab audit or a Fixit audit with a nil \<open>after\<close> returns the error "after value for
  vocab is required" (for a Fixit: "after value for fixit is required"); the storage is
  left as it was.
\<close>

theorem audit_after_nil_is_rejected:
  "CreateVocabAudit lib s comments createdBy vbefore None w
     = (Return (Some ''after value for vocab is required''), w)
   \<and> CreateFixitAudit lib s comments createdBy fbefore None w
     = (Return (Some ''after value for fixit is required''), w)"
  by (simp add: CreateVocabAudit_def CreateFixitAudit_def)

text \<open>
  Claim C8. When both snapshots are given and their ids differ, building a Vocab audit or
  a Fixit audit returns the mismatch error, whose message carries both ids in decimal,
  and the storage is left as it was: the repository is not called, so no audit record is
  created.
\<close>

theorem audit_id_mismatch_is_rejected:
  "(ID vbefore \<noteq> ID vafter \<longrightarrow>
      CreateVocabAudit lib s comments createdBy (Some vbefore) (Some vafter) w
        = (Return (Some (''audit before id '' @ fmt_d (ID vbefore) @ '' and after id ''
                         @ fmt_d (ID vafter) @ '' mismatch'')), w))
   \<and> (F_ID fbefore \<noteq> F_ID fafter \<longrightarrow>
      CreateFixitAudit lib s comments createdBy (Some fbefore) (Some fafter) w
        = (Return (Some (''fixit before id '' @ fmt_d (F_ID fbefore) @ '' and after id ''
                         @ fmt_d (F_ID fafter) @ '' mismatch'')), w))"
  by (simp add: CreateVocabAudit_def CreateFixitAudit_def)

theorem audit_id_mismatch_is_rejected_witness:
  "CreateVocabAudit ex_lib mockAuditService ''Mismatch IDs'' ''tester''
       (Some (ex_vocab\<lparr>ID := 2\<rparr>)) (Some ex_vocab) emptyWorld
     = (Return (Some ''audit before id 2 and after id 1 mismatch''), emptyWorld)
   \<and> CreateFixitAudit ex_lib mockAuditService ''Mismatch IDs'' ''tester''
       (Some (ex_fixit\<lparr>F_ID := 2\<rparr>)) (Some ex_fixit) emptyWorld
     = (Return (Some ''fixit before id 2 and after id 1 mismatch''), emptyWorld)"
  using audit_id_mismatch_is_rejected
          [where vbefore = "ex_vocab\<lparr>ID := 2\<rparr>" and vafter = ex_vocab
             and fbefore = "ex_fixit\<lparr>F_ID := 2\<rparr>" and fafter = ex_fixit
             and lib = ex_lib and s = mockAuditService and w = emptyWorld
             and comments = "''Mismatch IDs''" and createdBy = "''tester''"]
  by (simp add: ex_vocab_def ex_fixit_def)

section \<open>The time-range filter\<close>

text \<open>
  Claim C9. An absent start time stands for one hour before the current time and an
  absent end time for the current time. With the start and the end so resolved (given
  ones parsed), the conversion returns the error "start time must be before end time"
  when the start is strictly after the end; otherwise, and so when the two are equal, it
  returns the duration from the start to the end. And it returns this error in no other
  case: a time that does not parse gives another error.
\<close>

theorem GqlDateTimeToDuration_checks_order:
  "((if startTime = [] then Inr (now1 - Hour) else time_Parse lib startTime) = Inr start
      \<and> (if endTime = [] then Inr now2 else time_Parse lib endTime) = Inr end'
    \<longrightarrow> GqlDateTimeToDuration lib now1 now2 startTime endTime
          = (if start > end' then Inl ''start time must be before end time''
             else Inr \<lparr>Start = start, End = end'\<rparr>))
   \<and> (GqlDateTimeToDuration lib now1 now2 startTime endTime
          = Inl ''start time must be before end time''
        \<longleftrightarrow> (\<exists>s e. (if startTime = [] then Inr (now1 - Hour) else time_Parse lib startTime) = Inr s
                  \<and> (if endTime = [] then Inr now2 else time_Parse lib endTime) = Inr e
                  \<and> s > e))"
  by (auto simp add: GqlDateTimeToDuration_def gqlDateTimeToTime_def
        split: if_splits sum.splits)

theorem GqlDateTimeToDuration_checks_order_witness:
  "GqlDateTimeToDuration ex_lib (2 * Hour) (2 * Hour + 5) [] ''1970-01-01T01:00:00Z''
     = Inr \<lparr>Start = Hour, End = Hour\<rparr>
   \<and> GqlDateTimeToDuration ex_lib (2 * Hour) (2 * Hour + 5) ''1970-01-01T01:00:00Z'' []
     = Inr \<lparr>Start = Hour, End = 2 * Hour + 5\<rparr>
   \<and> GqlDateTimeToDuration ex_lib (2 * Hour) (2 * Hour + 5) ''1970-01-01T00:00:01Z''
       ''1970-01-01T00:00:00Z''
     = Inl ''start time must be before end time''"
  using GqlDateTimeToDuration_checks_order
          [where lib = ex_lib and ?now1.0 = "2 * Hour" and ?now2.0 = "2 * Hour + 5"
             and startTime = "[]" and endTime = "''1970-01-01T01:00:00Z''"
             and start = Hour and end' = Hour]
        GqlDateTimeToDuration_checks_order
          [where lib = ex_lib and ?now1.0 = "2 * Hour" and ?now2.0 = "2 * Hour + 5"
             and startTime = "''1970-01-01T01:00:00Z''" and endTime = "[]"
             and start = Hour and end' = "2 * Hour + 5"]
        GqlDateTimeToDuration_checks_order
          [where lib = ex_lib and ?now1.0 = "2 * Hour" and ?now2.0 = "2 * Hour + 5"
             and startTime = "''1970-01-01T00:00:01Z''" and endTime = "''1970-01-01T00:00:00Z''"
             and start = 1000000000 and end' = 0]
  by (simp add: ex_lib_def ex_times_def Hour_def)

section \<open>The Vocab and Fixit services\<close>

text \<open>
  Claim C4, evaluated where the code departs from it. The mock storage holds a vocab with
  id 1; the repository's create refuses a second, valid vocab with this id ("vocab
  already exists"). \<^verbatim>\<open>CreateVocab\<close> assigns the error of the audit call, which is nil, over the
  error of the create call and returns nil: the failure of the create call does not
  reach the caller, and the audit of a creation that did not happen is stored.
  \<^verbatim>\<open>CreateFixit\<close> does the same with a repository whose create fails.
\<close>

theorem CreateVocab_loses_the_create_error:
  "Mock_CreateVocab (ex_vocab\<lparr>LearningLang := ''adios''\<rparr>) ex_world
     = ((ex_vocab\<lparr>LearningLang := ''adios''\<rparr>, Some ''vocab already exists''), ex_world)
   \<and> fst (CreateVocab ex_lib mockVocabService (ex_vocab\<lparr>LearningLang := ''adios''\<rparr>) ex_world)
     = Return (ex_vocab\<lparr>LearningLang := ''adios''\<rparr>, None)
   \<and> vocabs (snd (CreateVocab ex_lib mockVocabService (ex_vocab\<lparr>LearningLang := ''adios''\<rparr>)
                ex_world))
     = [(1, ex_vocab)]
   \<and> map (\<lambda>(i, a). (A_TableName a, A_ObjectID a, A_Comments a))
        (audits (snd (CreateVocab ex_lib mockVocabService
                        (ex_vocab\<lparr>LearningLang := ''adios''\<rparr>) ex_world)))
     = [(''vocab'', 1, ''created vocab'')]
   \<and> fst (CreateFixit ex_lib rejectingFixitService (ex_fixit\<lparr>F_Status := ''bogus''\<rparr>) emptyWorld)
     = Return (ex_fixit\<lparr>F_Status := ''bogus''\<rparr>, None)"
  by code_simp

text \<open>
  Claim C5, as stated, refuted. In the first storage the stored vocab has the hint
  \<^verbatim>\<open></b>\<close>, in the second the stored fixit has the comments \<^verbatim>\<open></b>\<close>. An update whose
  input is the stored record itself fails the field validation, which comes first, and
  returns its error instead of the "has no changes" error.
\<close>

theorem update_without_changes_counterexample:
  "Mock_FindVocabByID 1 (emptyWorld\<lparr>vocabs := [(1, ex_vocab\<lparr>Hint := ''</b>''\<rparr>)]\<rparr>)
     = ((Some (ex_vocab\<lparr>Hint := ''</b>''\<rparr>), None),
        emptyWorld\<lparr>vocabs := [(1, ex_vocab\<lparr>Hint := ''</b>''\<rparr>)]\<rparr>)
   \<and> UpdateVocab ex_lib mockVocabService (ex_vocab\<lparr>Hint := ''</b>''\<rparr>)
         (emptyWorld\<lparr>vocabs := [(1, ex_vocab\<lparr>Hint := ''</b>''\<rparr>)]\<rparr>)
     = (Return (None, Some ''Hint contains invalid characters''),
        emptyWorld\<lparr>vocabs := [(1, ex_vocab\<lparr>Hint := ''</b>''\<rparr>)]\<rparr>)
   \<and> Mock_FindFixitByID 1 (emptyWorld\<lparr>fixits := [(1, ex_fixit\<lparr>F_Comments := ''</b>''\<rparr>)]\<rparr>)
     = ((Some (ex_fixit\<lparr>F_Comments := ''</b>''\<rparr>), None),
        emptyWorld\<lparr>fixits := [(1, ex_fixit\<lparr>F_Comments := ''</b>''\<rparr>)]\<rparr>)
   \<and> UpdateFixit ex_lib mockFixitService (ex_fixit\<lparr>F_Comments := ''</b>''\<rparr>)
         (emptyWorld\<lparr>fixits := [(1, ex_fixit\<lparr>F_Comments := ''</b>''\<rparr>)]\<rparr>)
     = (Return (None, Some ''Commits contains invalid characters''),
        emptyWorld\<lparr>fixits := [(1, ex_fixit\<lparr>F_Comments := ''</b>''\<rparr>)]\<rparr>)"
  by code_simp

text \<open>
  Claim C5, amended. Let the input pass the field validation of the update, and let the
  lookup by the input's id return a stored record, without an error, whose mutable fields
  (for a vocab: hint, part of speech, skill, first language, infinitive, alternatives,
  number of learning words; for a fixit: status, field name, comments) all equal the
  input's. Then \<^verbatim>\<open>UpdateVocab\<close> (\<^verbatim>\<open>UpdateFixit\<close>) returns no record and the error "update for
  vocab (fixit) N has no changes", N being the id, and the storage is in the state in
  which the lookup left it: neither the update of the repository nor the audit is called.
\<close>

theorem update_without_changes_is_rejected:
  "(validateVocabUpdate updating = None
      \<and> FindVocabByID_r (vocab_repo vs) (ID updating) w = ((Some stored, None), w1)
      \<and> Hint stored = Hint updating \<and> Pos stored = Pos updating
      \<and> Skill stored = Skill updating \<and> FirstLang stored = FirstLang updating
      \<and> Infinitive stored = Infinitive updating \<and> Alternatives stored = Alternatives updating
      \<and> NumLearningWords stored = NumLearningWords updating
    \<longrightarrow> UpdateVocab lib vs updating w
          = (Return (None, Some (''update for vocab '' @ fmt_d (ID stored) @ '' has no changes'')),
             w1))
   \<and> (validateFixit fupdating = None
      \<and> FindFixitByID_r (fixit_repo fs) (F_ID fupdating) w = ((Some fstored, None), w2)
      \<and> F_Status fstored = F_Status fupdating \<and> F_FieldName fstored = F_FieldName fupdating
      \<and> F_Comments fstored = F_Comments fupdating
    \<longrightarrow> UpdateFixit lib fs fupdating w
          = (Return (None, Some (''update for fixit '' @ fmt_d (F_ID fstored) @ '' has no changes'')),
             w2))"
  by (simp add: UpdateVocab_def UpdateFixit_def Vocab_Clone_def Fixit_Clone_def)

theorem update_without_changes_is_rejected_witness:
  "UpdateVocab ex_lib mockVocabService ex_vocab ex_world
     = (Return (None, Some ''update for vocab 1 has no changes''), ex_world)
   \<and> UpdateFixit ex_lib mockFixitService ex_fixit (emptyWorld\<lparr>fixits := [(1, ex_fixit)]\<rparr>)
     = (Return (None, Some ''update for fixit 1 has no changes''),
        emptyWorld\<lparr>fixits := [(1, ex_fixit)]\<rparr>)"
proof -
  have v: "validateVocabUpdate ex_vocab = None" "validateFixit ex_fixit = None"
    by code_simp+
  have f: "FindVocabByID_r (vocab_repo mockVocabService) (ID ex_vocab) ex_world
             = ((Some ex_vocab, None), ex_world)"
    "FindFixitByID_r (fixit_repo mockFixitService) (F_ID ex_fixit)
         (emptyWorld\<lparr>fixits := [(1, ex_fixit)]\<rparr>)
       = ((Some ex_fixit, None), emptyWorld\<lparr>fixits := [(1, ex_fixit)]\<rparr>)"
    by code_simp+
  have i: "ID ex_vocab = 1" "F_ID ex_fixit = 1"
    by (simp_all add: ex_vocab_def ex_fixit_def)
  show ?thesis
    using update_without_changes_is_rejected
            [where updating = ex_vocab and stored = ex_vocab and vs = mockVocabService
               and fupdating = ex_fixit and fstored = ex_fixit and fs = mockFixitService
               and lib = ex_lib and w = ex_world and ?w1.0 = ex_world
               and ?w2.0 = "emptyWorld\<lparr>fixits := [(1, ex_fixit)]\<rparr>"]
          update_without_changes_is_rejected
            [where updating = ex_vocab and stored = ex_vocab and vs = mockVocabService
               and fupdating = ex_fixit and fstored = ex_fixit and fs = mockFixitService
               and lib = ex_lib and w = "emptyWorld\<lparr>fixits := [(1, ex_fixit)]\<rparr>"
               and ?w1.0 = ex_world
               and ?w2.0 = "emptyWorld\<lparr>fixits := [(1, ex_fixit)]\<rparr>"]
          v f i
    by simp
qed

text \<open>
  Claim C6, as stated, refuted. The mock storage holds a vocab with the learning language
  "hola". Creating a vocab with the same learning language and an empty known-language
  code fails with the error of the validation, which comes before the lookup, and not
  with the duplicate error.
\<close>

theorem CreateVocab_duplicate_counterexample:
  "Mock_FindVocabByLearningLang ''hola'' ex_world = ((Some ex_vocab, None), ex_world)
   \<and> CreateVocab ex_lib mockVocabService (ex_vocab\<lparr>ID := 0, KnownLangCode := []\<rparr>) ex_world
     = (Return (ex_vocab\<lparr>ID := 0, KnownLangCode := []\<rparr>,
                Some ''Language codes must consist of two lowercase letters''),
        ex_world)"
  by code_simp

text \<open>
  Claim C6, amended. For every input vocab that passes \<^verbatim>\<open>validateVocab\<close>: when the lookup
  by the input's learning language returns an existing record and no error,
  \<^verbatim>\<open>CreateVocab\<close> returns the error "vocab with learning lang L and id N already exists",
  L being the learning language and N the id of the existing record, and the storage is
  in the state in which the lookup left it: the rejection comes before the create of the
  repository, which is not called.
\<close>

theorem CreateVocab_duplicate_is_rejected:
  assumes "validateVocab vocab = None"
    and "FindVocabByLearningLang_r (vocab_repo s) (LearningLang vocab) w
           = ((Some existing, None), w1)"
  shows "CreateVocab lib s vocab w
           = (Return (vocab, Some (''vocab with learning lang '' @ LearningLang vocab
                                   @ '' and id '' @ fmt_d (ID existing) @ '' already exists'')),
              w1)"
  using assms by (simp add: CreateVocab_def)

theorem CreateVocab_duplicate_is_rejected_witness:
  "CreateVocab ex_lib mockVocabService (ex_vocab\<lparr>ID := 0\<rparr>) ex_world
     = (Return (ex_vocab\<lparr>ID := 0\<rparr>, Some ''vocab with learning lang hola and id 1 already exists''),
        ex_world)"
proof -
  have v: "validateVocab (ex_vocab\<lparr>ID := 0\<rparr>) = None"
    by code_simp
  have f: "FindVocabByLearningLang_r (vocab_repo mockVocabService)
             (LearningLang (ex_vocab\<lparr>ID := 0\<rparr>)) ex_world
           = ((Some ex_vocab, None), ex_world)"
    by code_simp
  show ?thesis
    using CreateVocab_duplicate_is_rejected [OF v f, of ex_lib]
    by (simp add: ex_vocab_def)
qed

text \<open>
  Claim C10. When \<^verbatim>\<open>UpdateVocab\<close> succeeds (it returns a record and no error), the lookup
  by the input's id returned a stored record \<open>before'\<close>, and the record that was handed
  to the update of the repository has the id, the learning language, the creation time
  and the two language codes of \<open>before'\<close>, and the hint, part of speech, skill, first
  language, infinitive, alternatives and number of learning words of the input.
\<close>

theorem UpdateVocab_keeps_the_immutable_fields:
  assumes "UpdateVocab lib s updating w = (Return (Some vocab, None), w')"
  shows "\<exists>before' w1 persisted w2.
           FindVocabByID_r (vocab_repo s) (ID updating) w = ((Some before', None), w1)
         \<and> UpdateVocab_r (vocab_repo s) persisted w1 = ((vocab, None), w2)
         \<and> ID persisted = ID before'
         \<and> LearningLang persisted = LearningLang before'
         \<and> Created persisted = Created before'
         \<and> KnownLangCode persisted = KnownLangCode before'
         \<and> LearningLangCode persisted = LearningLangCode before'
         \<and> Hint persisted = Hint updating
         \<and> Pos persisted = Pos updating
         \<and> Skill persisted = Skill updating
         \<and> FirstLang persisted = FirstLang updating
         \<and> Infinitive persisted = Infinitive updating
         \<and> Alternatives persisted = Alternatives updating
         \<and> NumLearningWords persisted = NumLearningWords updating"
proof -
  from assms obtain before' w1 where
    found: "FindVocabByID_r (vocab_repo s) (ID updating) w = ((Some before', None), w1)"
    by (auto simp add: UpdateVocab_def split: option.splits prod.splits)
  define persisted where
    "persisted = (Vocab_Clone before')
        \<lparr>Hint := Hint updating, Pos := Pos updating, Skill := Skill updating,
         FirstLang := FirstLang updating, Infinitive := Infinitive updating,
         Alternatives := Alternatives updating,
         NumLearningWords := NumLearningWords updating\<rparr>"
  from assms found obtain w2 where
    "UpdateVocab_r (vocab_repo s) persisted w1 = ((vocab, None), w2)"
    by (auto simp add: UpdateVocab_def Let_def persisted_def
          split: option.splits prod.splits if_splits outcome.splits)
  with found show ?thesis
    by (intro exI [of _ before'] exI [of _ w1] exI [of _ persisted] exI [of _ w2])
       (simp add: persisted_def Vocab_Clone_def)
qed

theorem UpdateVocab_keeps_the_immutable_fields_witness:
  "fst (UpdateVocab ex_lib mockVocabService ex_update ex_world)
     = Return (Some (ex_vocab\<lparr>Hint := ''h''\<rparr>), None)
   \<and> (\<exists>before' w1 persisted w2.
           FindVocabByID_r (vocab_repo mockVocabService) (ID ex_update) ex_world
             = ((Some before', None), w1)
         \<and> UpdateVocab_r (vocab_repo mockVocabService) persisted w1
             = ((ex_vocab\<lparr>Hint := ''h''\<rparr>, None), w2)
         \<and> ID persisted = ID before'
         \<and> LearningLang persisted = LearningLang before'
         \<and> Created persisted = Created before'
         \<and> KnownLangCode persisted = KnownLangCode before'
         \<and> LearningLangCode persisted = LearningLangCode before'
         \<and> Hint persisted = Hint ex_update
         \<and> Pos persisted = Pos ex_update
         \<and> Skill persisted = Skill ex_update
         \<and> FirstLang persisted = FirstLang ex_update
         \<and> Infinitive persisted = Infinitive ex_update
         \<and> Alternatives persisted = Alternatives ex_update
         \<and> NumLearningWords persisted = NumLearningWords ex_update)"
proof -
  have e: "fst (UpdateVocab ex_lib mockVocabService ex_update ex_world)
             = Return (Some (ex_vocab\<lparr>Hint := ''h''\<rparr>), None)"
    by code_simp
  then have "UpdateVocab ex_lib mockVocabService ex_update ex_world
               = (Return (Some (ex_vocab\<lparr>Hint := ''h''\<rparr>), None),
                  snd (UpdateVocab ex_lib mockVocabService ex_update ex_world))"
    by (metis prod.collapse)
  from UpdateVocab_keeps_the_immutable_fields [OF this] e show ?thesis
    by blast
qed

section \<open>The structural diff\<close>

subsection \<open>The insertion sort sorts\<close>

lemma mset_bubble_left: "mset (bubble_left lt x ys) = add_mset x (mset ys)"
  by (induction ys) auto

lemma set_bubble_left: "set (bubble_left lt x ys) = insert x (set ys)"
  using mset_bubble_left [of lt x ys] by (metis set_mset_add_mset_insert set_mset_mset)

lemma sorted_bubble_left:
  "sorted_wrt (\<lambda>d e. Key e \<le> Key d) ys
   \<Longrightarrow> sorted_wrt (\<lambda>d e. Key e \<le> Key d) (bubble_left less_Key x ys)"
  by (induction ys) (auto simp add: set_bubble_left less_Key_def)

lemma mset_foldl_bubble_left:
  "mset (foldl (\<lambda>s x. bubble_left lt x s) acc xs) = mset acc + mset xs"
  by (induction xs arbitrary: acc) (auto simp add: mset_bubble_left)

lemma sorted_foldl_bubble_left:
  "sorted_wrt (\<lambda>d e. Key e \<le> Key d) acc
   \<Longrightarrow> sorted_wrt (\<lambda>d e. Key e \<le> Key d) (foldl (\<lambda>s x. bubble_left less_Key x s) acc xs)"
  by (induction xs arbitrary: acc) (auto simp add: sorted_bubble_left)

lemma insertionSort_sorts:
  "mset (insertionSort less_Key xs) = mset xs"
  "sorted (map Key (insertionSort less_Key xs))"
  using sorted_foldl_bubble_left [of "[]" xs]
  by (simp_all add: insertionSort_def mset_foldl_bubble_left sorted_map sorted_wrt_rev)

lemma ex_lib_sorts: "sort_Slice_sorts ex_lib"
  by (simp add: sort_Slice_sorts_def ex_lib_def insertionSort_sorts)

subsection \<open>Two lists in key order\<close>

lemma sorted_by_key_unique:
  assumes "sorted (map Key xs)" "sorted (map Key ys)" "mset xs = mset ys"
    and "distinct (map Key xs)"
  shows "xs = ys"
proof -
  have s: "set xs = set ys"
    using assms(3) by (metis set_mset_mset)
  have "distinct (map Key ys)"
    using assms(3,4) by (metis distinct_map mset_eq_setD mset_eq_length card_distinct
        distinct_card length_map set_map)
  then have "map Key xs = map Key ys"
    using assms(1,2,4) s by (intro sorted_distinct_set_unique) auto
  moreover have "inj_on Key (set xs \<union> set ys)"
    using assms(4) s by (simp add: distinct_map)
  ultimately show ?thesis
    by (rule map_inj_on)
qed

subsection \<open>A nil second map\<close>


subsection \<open>Removed keys and inputs that do not decode\<close>

text \<open>
  Claim C2, evaluated where the code departs from it. The key \<open>x\<close> is in the nested map
  \<open>d\<close> of the first object and not in the nested map \<open>d\<close> of the second. \<^verbatim>\<open>findDiffs\<close>
  takes a non-empty path for the sign of a comparison with the arguments swapped, which
  no call makes, and reports the key as \<^verbatim>\<open>'d.x' added\<close>, not as \<^verbatim>\<open>'d.x' removed\<close>.
\<close>

theorem findDiffs_reports_nested_removal_as_added:
  \<open>findDiffs ex_lib [(''d'', JObject [(''x'', JNumber 1)])] [(''d'', JObject [])] []
     = Return [\<lparr>Key = sq @ ''d.x'' @ sq @ '' added'', Before = JNull, After = JNull\<rparr>]
   \<and> CompareJSON ex_lib ''{"d":{"x":1}}'' ''{"d":{}}''
     = Return ''[{"key":"'d.x' added","before":null,"after":null}]''\<close>
  by code_simp




subsection \<open>The loop, entry by entry\<close>

lemma findDiffs_range_Cons:
  "findDiffs_range lib (e # rest) b path acc
     = (case entry_diffs lib b path e of
          Panic \<Rightarrow> Panic
        | Return ds \<Rightarrow> findDiffs_range lib rest b path (acc @ ds))"
  by (cases e) (simp add: entry_diffs_def Let_def del: findDiffs.simps(1)
        split: option.splits json.splits outcome.splits bool.splits)

lemma findDiffs_range_closed:
  "findDiffs_range lib xs b path acc
     = (if \<exists>e \<in> set xs. entry_diffs lib b path e = Panic then Panic
        else Return (acc @ concat (map (\<lambda>e. returned (entry_diffs lib b path e)) xs)))"
proof (induction xs arbitrary: acc)
  case Nil
  then show ?case by simp
next
  case (Cons e xs)
  show ?case
    by (simp only: findDiffs_range_Cons Cons.IH)
       (auto simp add: returned_def split: outcome.splits)
qed

lemma entry_diffs_leaf:
  "\<forall>aT. snd e \<noteq> JObject aT \<Longrightarrow> entry_diffs lib b path e = entry_diffs lib' b path e"
  by (cases "snd e") (simp_all add: entry_diffs_def split: option.splits)

lemma same_entries_refl: "same_entries r r"
  by (simp add: same_entries_def split: outcome.splits)

lemma same_entries_Panic: "same_entries r r' \<Longrightarrow> r = Panic \<longleftrightarrow> r' = Panic"
  by (auto simp add: same_entries_def split: outcome.splits)

lemma same_entries_returned: "same_entries r r' \<Longrightarrow> mset (returned r) = mset (returned r')"
  by (auto simp add: same_entries_def returned_def split: outcome.splits)

subsection \<open>Another visiting order\<close>

lemma mset_reordered_entries:
  assumes "length a = length a'" "distinct (map fst a)" "distinct (map fst a')"
    and "\<forall>e \<in> set a. map_of a' (fst e) \<noteq> None"
  shows "mset (map (\<lambda>e. (fst e, the (map_of a' (fst e)))) a) = mset a'"
proof -
  have "set (map fst a) \<subseteq> set (map fst a')"
    using assms(4) by (auto simp add: map_of_eq_None_iff)
  moreover have "card (set (map fst a)) = card (set (map fst a'))"
    using assms(1,2,3) by (simp add: distinct_card del: set_map)
  ultimately have "set (map fst a) = set (map fst a')"
    by (intro card_subset_eq) auto
  then have k: "mset (map fst a) = mset (map fst a')"
    using assms(2,3) set_eq_iff_mset_eq_distinct by blast
  have "map ((\<lambda>k. (k, the (map_of a' k))) \<circ> fst) a' = a'"
    using assms(3) by (intro map_idI) auto
  then have "map (\<lambda>k. (k, the (map_of a' k))) (map fst a') = a'"
    by simp
  then have "mset a' = image_mset (\<lambda>k. (k, the (map_of a' k))) (mset (map fst a'))"
    by (metis mset_map)
  also have "\<dots> = image_mset (\<lambda>k. (k, the (map_of a' k))) (mset (map fst a))"
    using k by simp
  also have "\<dots> = mset (map (\<lambda>e. (fst e, the (map_of a' (fst e)))) a)"
    by (simp add: multiset.map_comp comp_def)
  finally show ?thesis by simp
qed

lemma mset_concat_map_cong:
  assumes "\<And>x. x \<in> set xs \<Longrightarrow> mset (f x) = mset (g x)"
  shows "mset (concat (map f xs)) = mset (concat (map g xs))"
  using assms by (induction xs) auto

lemma mset_concat_map_perm:
  assumes "mset xs = mset ys"
  shows "mset (concat (map f xs)) = mset (concat (map f ys))"
proof -
  have "mset (concat (map f zs)) = (\<Sum>x \<in># mset zs. mset (f x))" for zs
    by (induction zs) auto
  then show ?thesis using assms by simp
qed

text \<open>
  Neither the order in which the entries of the first map and of its nested maps are
  visited nor the sort decides which entries are found, or whether the call panics.
\<close>

lemma reordered_same_entries:
  assumes L: "sort_Slice_sorts lib" "sort_Slice_sorts lib'"
  shows "v = JObject a \<Longrightarrow> reordered v (JObject a')
         \<Longrightarrow> same_entries (findDiffs lib a b path) (findDiffs lib' a' b path)"
proof (induction v arbitrary: a a' b path)
  case (JObject xs)
  then have xs: "xs = a"
    by simp
  from JObject.prems have r: "length a = length a'" "distinct (map fst a)"
    "distinct (map fst a')"
    "\<forall>e \<in> set a. case map_of a' (fst e) of None \<Rightarrow> False | Some v' \<Rightarrow> reordered (snd e) v'"
    by (simp_all add: list_all_iff)
  define g where "g e = (fst e, the (map_of a' (fst e)))" for e :: "string \<times> json"
  have pt: "same_entries (entry_diffs lib b path e) (entry_diffs lib' b path (g e))"
    if e: "e \<in> set a" for e
  proof -
    from r(4) e obtain v' where v': "map_of a' (fst e) = Some v'" "reordered (snd e) v'"
      by (auto split: option.splits)
    show ?thesis
    proof (cases "\<exists>aT. snd e = JObject aT")
      case True
      then obtain aT where aT: "snd e = JObject aT"
        by blast
      with v'(2) obtain aT' where aT': "v' = JObject aT'"
        by (cases v') auto
      have ih: "same_entries (findDiffs lib aT bT p) (findDiffs lib' aT' bT p)" for bT p
        using JObject.IH [of e "snd e" aT aT' bT p] e xs aT aT' v'(2)
        by (cases e) auto
      show ?thesis
        using aT aT' v'(1) ih
        by (simp add: entry_diffs_def g_def same_entries_refl split: option.splits json.splits)
    next
      case False
      with v'(2) have "v' = snd e"
        by (cases "snd e") auto
      then have "g e = e"
        using v'(1) by (simp add: g_def)
      then show ?thesis
        using False entry_diffs_leaf [of e lib b path lib'] by (simp add: same_entries_refl)
    qed
  qed
  have "\<forall>e \<in> set a. map_of a' (fst e) \<noteq> None"
    using r(4) by (auto split: option.splits)
  then have ms: "mset (map g a) = mset a'"
    unfolding g_def using r(1,2,3) by (intro mset_reordered_entries)
  then have st: "set a' = g ` set a"
    by (metis set_map set_mset_mset)
  have p: "(\<exists>e \<in> set a. entry_diffs lib b path e = Panic)
           \<longleftrightarrow> (\<exists>e \<in> set a'. entry_diffs lib' b path e = Panic)"
    using pt same_entries_Panic unfolding st by blast
  have "mset (concat (map (\<lambda>e. returned (entry_diffs lib' b path e)) a'))
          = mset (concat (map (\<lambda>e. returned (entry_diffs lib' b path e)) (map g a)))"
    using ms by (intro mset_concat_map_perm) simp
  also have "\<dots> = mset (concat (map (\<lambda>e. returned (entry_diffs lib' b path (g e))) a))"
    by (simp add: comp_def)
  also have "\<dots> = mset (concat (map (\<lambda>e. returned (entry_diffs lib b path e)) a))"
    using pt by (intro mset_concat_map_cong) (metis same_entries_returned)
  finally have m: "mset (concat (map (\<lambda>e. returned (entry_diffs lib' b path e)) a'))
          = mset (concat (map (\<lambda>e. returned (entry_diffs lib b path e)) a))" .
  show ?case
    using p m L
    by (simp add: findDiffs_range_closed same_entries_def sort_Slice_sorts_def)
qed simp_all

subsection \<open>The order of the result\<close>

text \<open>
  Claim C1, as stated, refuted. The two first arguments are the same Go map, with the key
  \<open>a.b\<close> and the nested map \<open>a\<close>, visited in the two possible orders. Both changes are
  rendered under the key \<^verbatim>\<open>'a.b'\<close>, the sort leaves equal keys as they come, and the two
  results, each in key order, differ; so do their marshalled forms.
\<close>

theorem findDiffs_output_order_counterexample:
  \<open>reordered (JObject [(''a.b'', JNumber 1), (''a'', JObject [(''b'', JNumber 2)])])
             (JObject [(''a'', JObject [(''b'', JNumber 2)]), (''a.b'', JNumber 1)])
   \<and> findDiffs ex_lib
       [(''a.b'', JNumber 1), (''a'', JObject [(''b'', JNumber 2)])]
       [(''a.b'', JNumber 3), (''a'', JObject [(''b'', JNumber 4)])] []
     = Return [\<lparr>Key = sq @ ''a.b'' @ sq, Before = JNumber 1, After = JNumber 3\<rparr>,
               \<lparr>Key = sq @ ''a.b'' @ sq, Before = JNumber 2, After = JNumber 4\<rparr>]
   \<and> findDiffs ex_lib
       [(''a'', JObject [(''b'', JNumber 2)]), (''a.b'', JNumber 1)]
       [(''a.b'', JNumber 3), (''a'', JObject [(''b'', JNumber 4)])] []
     = Return [\<lparr>Key = sq @ ''a.b'' @ sq, Before = JNumber 2, After = JNumber 4\<rparr>,
               \<lparr>Key = sq @ ''a.b'' @ sq, Before = JNumber 1, After = JNumber 3\<rparr>]
   \<and> json_Marshal_diffs ex_lib
       [\<lparr>Key = sq @ ''a.b'' @ sq, Before = JNumber 1, After = JNumber 3\<rparr>,
        \<lparr>Key = sq @ ''a.b'' @ sq, Before = JNumber 2, After = JNumber 4\<rparr>]
     = Some ''[{"key":"'a.b'","before":1,"after":3},{"key":"'a.b'","before":2,"after":4}]''
   \<and> json_Marshal_diffs ex_lib
       [\<lparr>Key = sq @ ''a.b'' @ sq, Before = JNumber 2, After = JNumber 4\<rparr>,
        \<lparr>Key = sq @ ''a.b'' @ sq, Before = JNumber 1, After = JNumber 3\<rparr>]
     = Some ''[{"key":"'a.b'","before":2,"after":4},{"key":"'a.b'","before":1,"after":3}]''\<close>
  by code_simp

text \<open>
  Claim C1, amended. The diff list that \<^verbatim>\<open>findDiffs\<close> returns is in ascending order of the
  rendered keys, equal keys allowed. When its rendered keys are pairwise distinct, the
  list is the same in every run on the same two maps: whatever the order in which
  \<^verbatim>\<open>range\<close> visits the entries of the first map and of the maps nested in it, and whatever
  the sort does with equal keys, the call returns this very list. (The second map is
  looked up, never ranged over.) Entries that share a rendered key come in an order that
  the run decides.
\<close>

theorem findDiffs_sorted_by_key:
  assumes "sort_Slice_sorts lib" and "findDiffs lib a b path = Return ds"
  shows "sorted (map Key ds)
       \<and> (\<forall>lib' a'. sort_Slice_sorts lib' \<and> reordered (JObject a) (JObject a')
                     \<and> distinct (map Key ds)
             \<longrightarrow> findDiffs lib' a' b path = Return ds)"
proof (intro conjI allI impI)
  show s: "sorted (map Key ds)"
    using assms by (auto simp add: sort_Slice_sorts_def split: outcome.splits)
  fix lib' a'
  assume h: "sort_Slice_sorts lib' \<and> reordered (JObject a) (JObject a') \<and> distinct (map Key ds)"
  then have "same_entries (findDiffs lib a b path) (findDiffs lib' a' b path)"
    using assms(1) by (intro reordered_same_entries [where v = "JObject a"]) auto
  then obtain ds' where ds': "findDiffs lib' a' b path = Return ds'" "mset ds = mset ds'"
    using assms(2) by (auto simp add: same_entries_def split: outcome.splits)
  from ds'(1) h have "sorted (map Key ds')"
    by (auto simp add: sort_Slice_sorts_def split: outcome.splits)
  with s ds'(2) h have "ds = ds'"
    by (intro sorted_by_key_unique) auto
  with ds'(1) show "findDiffs lib' a' b path = Return ds"
    by simp
qed

theorem findDiffs_sorted_by_key_witness:
  "findDiffs ex_lib ex_before ex_after []
     = Return [\<lparr>Key = sq @ ''hint'' @ sq, Before = JString ''A hint'', After = JString []\<rparr>,
               \<lparr>Key = sq @ ''infinitive'' @ sq, Before = JString ''ser'', After = JString []\<rparr>]
   \<and> sorted (map Key
        [\<lparr>Key = sq @ ''hint'' @ sq, Before = JString ''A hint'', After = JString []\<rparr>,
         \<lparr>Key = sq @ ''infinitive'' @ sq, Before = JString ''ser'', After = JString []\<rparr>])
   \<and> findDiffs ex_lib (rev ex_before) ex_after []
     = Return [\<lparr>Key = sq @ ''hint'' @ sq, Before = JString ''A hint'', After = JString []\<rparr>,
               \<lparr>Key = sq @ ''infinitive'' @ sq, Before = JString ''ser'', After = JString []\<rparr>]"
proof -
  have e: "findDiffs ex_lib ex_before ex_after []
     = Return [\<lparr>Key = sq @ ''hint'' @ sq, Before = JString ''A hint'', After = JString []\<rparr>,
               \<lparr>Key = sq @ ''infinitive'' @ sq, Before = JString ''ser'', After = JString []\<rparr>]"
    by code_simp
  have r: "reordered (JObject ex_before) (JObject (rev ex_before))"
    by code_simp
  have d: "distinct (map Key
        [\<lparr>Key = sq @ ''hint'' @ sq, Before = JString ''A hint'', After = JString []\<rparr>,
         \<lparr>Key = sq @ ''infinitive'' @ sq, Before = JString ''ser'', After = JString []\<rparr>])"
    by simp
  from findDiffs_sorted_by_key [OF ex_lib_sorts e] r d ex_lib_sorts e show ?thesis
    by blast
qed

end
